theory Spec2Isabelle
  imports Main "HOL-Library.Word" "HOL-Library.Char_ord" "HOL-Library.List_Lexorder"
    "HOL-Library.Multiset"
begin

unbundle bit_operations_syntax

section \<open>Levels and severities\<close>

text \<open>
  \<^verbatim>\<open>zapcore.Level\<close> is a Go \<^verbatim>\<open>int8\<close>; its constants are \<^verbatim>\<open>DebugLevel = -1\<close> up to
  \<^verbatim>\<open>FatalLevel = 5\<close>. Comparisons on it are signed.
\<close>

type_synonym Level = "8 word"

definition DebugLevel :: Level where "DebugLevel = - 1"
definition InfoLevel :: Level where "InfoLevel = 0"
definition WarnLevel :: Level where "WarnLevel = 1"
definition ErrorLevel :: Level where "ErrorLevel = 2"
definition DPanicLevel :: Level where "DPanicLevel = 3"
definition PanicLevel :: Level where "PanicLevel = 4"
definition FatalLevel :: Level where "FatalLevel = 5"

text \<open>
  \<^verbatim>\<open>logtypepb.LogSeverity\<close>, the enumeration of the Cloud Logging API. Its zero value is
  \<^verbatim>\<open>DEFAULT\<close>, which is what a Go map lookup yields for a missing key.
\<close>

datatype LogSeverity =
  DEFAULT | DEBUG | INFO | NOTICE | WARNING | ERROR | CRITICAL | ALERT | EMERGENCY

fun LogSeverity_String :: "LogSeverity \<Rightarrow> string" where
  "LogSeverity_String DEFAULT = ''DEFAULT''"
| "LogSeverity_String DEBUG = ''DEBUG''"
| "LogSeverity_String INFO = ''INFO''"
| "LogSeverity_String NOTICE = ''NOTICE''"
| "LogSeverity_String WARNING = ''WARNING''"
| "LogSeverity_String ERROR = ''ERROR''"
| "LogSeverity_String CRITICAL = ''CRITICAL''"
| "LogSeverity_String ALERT = ''ALERT''"
| "LogSeverity_String EMERGENCY = ''EMERGENCY''"

text \<open>The table \<^verbatim>\<open>levelToSeverity\<close>, a Go map literal, as a finite map.\<close>

definition levelToSeverity :: "Level \<rightharpoonup> LogSeverity" where
  "levelToSeverity = map_of
     [(DebugLevel, DEBUG),
      (InfoLevel, INFO),
      (WarnLevel, WARNING),
      (ErrorLevel, ERROR),
      (DPanicLevel, CRITICAL),
      (PanicLevel, ALERT),
      (FatalLevel, EMERGENCY)]"

text \<open>\<^verbatim>\<open>levelToSeverity[lvl]\<close>: indexing a Go map gives the zero value for a missing key.\<close>

definition levelToSeverity_index :: "Level \<Rightarrow> LogSeverity" where
  "levelToSeverity_index lvl = (case levelToSeverity lvl of None \<Rightarrow> DEFAULT | Some s \<Rightarrow> s)"

text \<open>
  \<^verbatim>\<open>levelEncoder\<close> appends the severity's name to a primitive array encoder, modelled as the
  list of strings appended so far.
\<close>

definition levelEncoder :: "Level \<Rightarrow> string list \<Rightarrow> string list" where
  "levelEncoder lvl enc = enc @ [LogSeverity_String (levelToSeverity_index lvl)]"

definition definedLevels :: "Level list" where
  "definedLevels =
     [DebugLevel, InfoLevel, WarnLevel, ErrorLevel, DPanicLevel, PanicLevel, FatalLevel]"

section \<open>Errors\<close>

text \<open>
  Go errors as values. \<^verbatim>\<open>Errno\<close> is \<^verbatim>\<open>unix.Errno\<close>; \<^verbatim>\<open>PathError\<close> is the
  \<^verbatim>\<open>*fs.PathError\<close> that a failing \<^verbatim>\<open>(*os.File).Sync\<close> returns (operation, path, cause);
  \<^verbatim>\<open>wrapError\<close> is what \<^verbatim>\<open>fmt.Errorf\<close> builds for a format with one \<^verbatim>\<open>%w\<close> verb.
  The last two unwrap to their cause.
\<close>

datatype error =
    Errno nat
  | errorString string
  | PathError string string error
  | wrapError string error

text \<open>The four error numbers of \<^verbatim>\<open>golang.org/x/sys/unix\<close>, with their values on Linux.\<close>

definition EINVAL :: error where "EINVAL = Errno 22"
definition ENOTSUP :: error where "ENOTSUP = Errno 95"
definition ENOTTY :: error where "ENOTTY = Errno 25"
definition EBADF :: error where "EBADF = Errno 9"

definition Errorf :: "string \<Rightarrow> error \<Rightarrow> error" where
  "Errorf format err = wrapError format err"

text \<open>
  \<^verbatim>\<open>errors.Is\<close>: walk the chain of causes and compare each link with the target. (The
  \<^verbatim>\<open>Is\<close> method of \<^verbatim>\<open>Errno\<close> only answers for the portable sentinel errors, which are
  never the target here.)
\<close>

fun errors_Is :: "error \<Rightarrow> error \<Rightarrow> bool" where
  "errors_Is (PathError op path cause) target =
     (PathError op path cause = target \<or> errors_Is cause target)"
| "errors_Is (wrapError msg cause) target =
     (wrapError msg cause = target \<or> errors_Is cause target)"
| "errors_Is err target = (err = target)"

text \<open>The chain of causes that \<^verbatim>\<open>errors.Is\<close> walks, outermost first.\<close>

fun unwrapChain :: "error \<Rightarrow> error list" where
  "unwrapChain (PathError op path cause) = PathError op path cause # unwrapChain cause"
| "unwrapChain (wrapError msg cause) = wrapError msg cause # unwrapChain cause"
| "unwrapChain err = [err]"

definition knownSyncError :: "error \<Rightarrow> bool" where
  "knownSyncError err =
     (if errors_Is err EINVAL \<or> errors_Is err ENOTSUP \<or> errors_Is err ENOTTY \<or>
         errors_Is err EBADF
      then True else False)"

text \<open>A run-time panic, as opposed to a returned error.\<close>

datatype panic = NilPointerDereference

section \<open>Fields\<close>

text \<open>Values of type \<^verbatim>\<open>interface{}\<close>, as far as the initial fields need them.\<close>

datatype anyval = nil | IntVal int | StringVal string | BoolVal bool

text \<open>
  The descriptor returned by \<^verbatim>\<open>monitoredresource.Detect()\<close>: the resource type, the log
  id and the labels it marshals inline. The detector is not part of the sources at hand; its
  result is a parameter of \<^verbatim>\<open>newCore\<close>.
\<close>

record MonitoredResource =
  Type :: string
  LogID :: string
  Labels :: "(string \<times> string) list"

record LogEntrySourceLocation =
  File :: string
  Line :: int
  Function :: string

text \<open>
  \<^verbatim>\<open>sourceLocation\<close> embeds a pointer to the protobuf message; a \<^verbatim>\<open>*sourceLocation\<close> is
  an optional \<^verbatim>\<open>sourceLocation\<close>.
\<close>

datatype sourceLocation = sourceLocation "LogEntrySourceLocation option"

datatype FieldPayload =
    UnknownType
  | BoolType bool
  | Int64Type int
  | StringType string
  | ReflectType anyval
  | InlineMarshalerType MonitoredResource
  | ObjectMarshalerType "sourceLocation option"
  | SkipType

datatype Field = Field (Key: string) (Payload: FieldPayload)

text \<open>The zero value of \<^verbatim>\<open>zapcore.Field\<close>, with which \<^verbatim>\<open>make\<close> fills a new slice.\<close>

definition zeroField :: Field where
  "zeroField = Field [] UnknownType"

definition zap_String :: "string \<Rightarrow> string \<Rightarrow> Field" where
  "zap_String key val = Field key (StringType val)"

definition zap_Inline :: "MonitoredResource \<Rightarrow> Field" where
  "zap_Inline val = Field [] (InlineMarshalerType val)"

definition zap_Object :: "string \<Rightarrow> sourceLocation option \<Rightarrow> Field" where
  "zap_Object key val = Field key (ObjectMarshalerType val)"

definition zap_Skip :: Field where
  "zap_Skip = Field [] SkipType"

text \<open>\<^verbatim>\<open>zap.Any\<close> picks the field type from the dynamic type of the value.\<close>

definition zap_Any :: "string \<Rightarrow> anyval \<Rightarrow> Field" where
  "zap_Any key val =
     (case val of
        nil \<Rightarrow> Field key (ReflectType nil)
      | IntVal i \<Rightarrow> Field key (Int64Type i)
      | StringVal s \<Rightarrow> Field key (StringType s)
      | BoolVal b \<Rightarrow> Field key (BoolType b))"

section \<open>Source location\<close>

definition SourceLocationKey :: string where
  "SourceLocationKey = ''logging.googleapis.com/sourceLocation''"

text \<open>
  A \<^verbatim>\<open>zapcore.ObjectEncoder\<close> receiving the sub-fields of an object: the list of
  (key, value) pairs added so far.
\<close>

datatype prim = PString string | PInt64 int | PBool bool

type_synonym ObjectEncoder = "(string \<times> prim) list"

definition AddString :: "string \<Rightarrow> string \<Rightarrow> ObjectEncoder \<Rightarrow> ObjectEncoder" where
  "AddString key val enc = enc @ [(key, PString val)]"

definition AddInt64 :: "string \<Rightarrow> int \<Rightarrow> ObjectEncoder \<Rightarrow> ObjectEncoder" where
  "AddInt64 key val enc = enc @ [(key, PInt64 val)]"

text \<open>The generated protobuf getters accept a nil message and return the zero value.\<close>

definition GetFile :: "LogEntrySourceLocation option \<Rightarrow> string" where
  "GetFile x = (case x of None \<Rightarrow> [] | Some m \<Rightarrow> File m)"

definition GetLine :: "LogEntrySourceLocation option \<Rightarrow> int" where
  "GetLine x = (case x of None \<Rightarrow> 0 | Some m \<Rightarrow> Line m)"

definition GetFunction :: "LogEntrySourceLocation option \<Rightarrow> string" where
  "GetFunction x = (case x of None \<Rightarrow> [] | Some m \<Rightarrow> Function m)"

text \<open>
  \<^verbatim>\<open>(*sourceLocation).MarshalLogObject\<close>. Reading the embedded pointer through a nil
  receiver is a nil pointer dereference; otherwise the three sub-fields are added and the
  returned error is nil.
\<close>

definition MarshalLogObject :: "sourceLocation option \<Rightarrow> ObjectEncoder \<Rightarrow> panic + ObjectEncoder" where
  "MarshalLogObject l enc =
     (case l of
        None \<Rightarrow> Inl NilPointerDereference
      | Some (sourceLocation m) \<Rightarrow>
          Inr (AddString ''function'' (GetFunction m)
                (AddInt64 ''line'' (GetLine m)
                  (AddString ''file'' (GetFile m) enc))))"

definition TrimPrefix :: "string \<Rightarrow> string \<Rightarrow> string" where
  "TrimPrefix s pre = (if take (length pre) s = pre then drop (length pre) s else s)"

text \<open>
  \<^verbatim>\<open>newSource\<close>. The symbol lookup \<^verbatim>\<open>FuncForPC\<close> (the name of the function at a program
  counter, or nothing) and the directory \<^verbatim>\<open>filepath.Join(build.Default.GOPATH, "src")\<close> are
  parameters.
\<close>

definition newSource ::
  "(nat \<Rightarrow> string option) \<Rightarrow> string \<Rightarrow> nat \<Rightarrow> string \<Rightarrow> int \<Rightarrow> bool \<Rightarrow> sourceLocation option" where
  "newSource FuncForPC gopathSrc pc file line ok =
     (if \<not> ok then None
      else
        let function = (case FuncForPC pc of
                          Some name \<Rightarrow> TrimPrefix name (gopathSrc @ ''/'')
                        | None \<Rightarrow> [])
        in Some (sourceLocation
                  (Some \<lparr>File = file, Line = line, Function = function\<rparr>)))"

definition SourceLocation ::
  "(nat \<Rightarrow> string option) \<Rightarrow> string \<Rightarrow> nat \<Rightarrow> string \<Rightarrow> int \<Rightarrow> bool \<Rightarrow> Field" where
  "SourceLocation FuncForPC gopathSrc pc file line ok =
     zap_Object SourceLocationKey (newSource FuncForPC gopathSrc pc file line ok)"

section \<open>Encoders and sinks\<close>

text \<open>
  Encoders and sinks are objects that several cores may point to, so they live in a store and a
  core holds their addresses. Of a \<^verbatim>\<open>zapcore.Encoder\<close> the store keeps the context: the
  fields added to it so far, in order. \<^verbatim>\<open>next_enc\<close> is the next unused encoder address.
\<close>

type_synonym addr = nat

record 's Store =
  encs :: "addr \<Rightarrow> Field list"
  next_enc :: addr
  sinks :: "addr \<Rightarrow> 's"

text \<open>\<^verbatim>\<open>zapcore.NewJSONEncoder\<close>: a new encoder with an empty context.\<close>

definition NewJSONEncoder :: "'s Store \<Rightarrow> addr \<times> 's Store" where
  "NewJSONEncoder h =
     (next_enc h, h\<lparr>encs := (encs h)(next_enc h := []), next_enc := Suc (next_enc h)\<rparr>)"

text \<open>\<^verbatim>\<open>Encoder.Clone\<close>: a new encoder whose context is a copy of the receiver's.\<close>

definition Encoder_Clone :: "addr \<Rightarrow> 's Store \<Rightarrow> addr \<times> 's Store" where
  "Encoder_Clone a h =
     (next_enc h, h\<lparr>encs := (encs h)(next_enc h := encs h a), next_enc := Suc (next_enc h)\<rparr>)"

text \<open>
  \<^verbatim>\<open>Field.AddTo\<close> on the JSON encoder, the only encoder this package builds. A field that
  holds an object marshaller is marshalled at once, which calls \<^verbatim>\<open>MarshalLogObject\<close>; if
  that panics, so does \<^verbatim>\<open>AddTo\<close>, and otherwise the field joins the context of the
  encoder. Every other field joins the context directly. (The marshaller of the inlined
  resource is not part of the sources at hand and is taken to return.) What a panicking call
  leaves behind is not modelled: the outcome \<open>Inl\<close> carries no store.
\<close>

definition AddTo :: "Field \<Rightarrow> addr \<Rightarrow> 's Store \<Rightarrow> panic + 's Store" where
  "AddTo field a h =
     (case Payload field of
        ObjectMarshalerType l \<Rightarrow>
          (case MarshalLogObject l [] of
             Inl p \<Rightarrow> Inl p
           | Inr obj \<Rightarrow> Inr (h\<lparr>encs := (encs h)(a := encs h a @ [field])\<rparr>))
      | _ \<Rightarrow> Inr (h\<lparr>encs := (encs h)(a := encs h a @ [field])\<rparr>))"

text \<open>
  A \<^verbatim>\<open>range\<close> loop over a slice whose body updates a state and may panic; a panic ends
  the loop and is the outcome.
\<close>

fun forEach :: "('a \<Rightarrow> 'st \<Rightarrow> panic + 'st) \<Rightarrow> 'a list \<Rightarrow> 'st \<Rightarrow> panic + 'st" where
  "forEach body [] st = Inr st"
| "forEach body (x # xs) st =
     (case body x st of Inl p \<Rightarrow> Inl p | Inr st' \<Rightarrow> forEach body xs st')"

text \<open>
  A \<^verbatim>\<open>zapcore.WriteSyncer\<close> implementation over sink states of type \<open>'s\<close>: writing bytes and
  flushing both give the new sink state and an optional error.
\<close>

record 's WriteSyncer =
  ws_Write :: "'s \<Rightarrow> string \<Rightarrow> 's \<times> error option"
  ws_Sync :: "'s \<Rightarrow> 's \<times> error option"

record Entry =
  Level :: Level
  Message :: string

text \<open>
  \<^verbatim>\<open>Encoder.EncodeEntry\<close> is a parameter of the operations below: from the encoder's
  context, the entry and the fields of the log site it gives the encoded bytes or an error.
\<close>

type_synonym EncodeEntry = "Field list \<Rightarrow> Entry \<Rightarrow> Field list \<Rightarrow> error + string"

section \<open>The core\<close>

text \<open>
  The struct \<^verbatim>\<open>Core\<close>. The embedded \<^verbatim>\<open>LevelEnabler\<close> is an interface value and may be
  nil; the slice \<^verbatim>\<open>fields\<close> is the component \<open>fields'\<close>; \<^verbatim>\<open>initFields\<close> is a
  Go map, kept as an association list in the order in which a \<^verbatim>\<open>range\<close> loop happens
  to visit it (a nil map is the empty list; the keys of a map are pairwise different).
\<close>

record Core =
  LevelEnabler :: "(Level \<Rightarrow> bool) option"
  enc :: addr
  ws :: addr
  fields' :: "Field list"
  initFields :: "(string \<times> anyval) list"

text \<open>The built-in \<^verbatim>\<open>copy(dst, src)\<close> on slices.\<close>

definition copy :: "'a list \<Rightarrow> 'a list \<Rightarrow> 'a list" where
  "copy dst src = take (min (length dst) (length src)) src @ drop (min (length dst) (length src)) dst"

definition clone :: "Core \<Rightarrow> 's Store \<Rightarrow> Core \<times> 's Store" where
  "clone c h =
     (let newFields = replicate (length (fields' c)) zeroField;
          (e, h') = Encoder_Clone (enc c) h;
          newCore = \<lparr>LevelEnabler = None, enc = e, ws = ws c, fields' = newFields,
                     initFields = []\<rparr>
      in (newCore\<lparr>fields' := copy (fields' newCore) (fields' c)\<rparr>, h'))"

definition addFields :: "addr \<Rightarrow> Field list \<Rightarrow> 's Store \<Rightarrow> panic + 's Store" where
  "addFields e fs h = forEach (\<lambda>field h'. AddTo field e h') fs h"

text \<open>\<^verbatim>\<open>With\<close> returns the clone only if adding the fields to its encoder returns.\<close>

definition With :: "Core \<Rightarrow> Field list \<Rightarrow> 's Store \<Rightarrow> panic + Core \<times> 's Store" where
  "With c fs h =
     (let (clone, h') = clone c h
      in (case addFields (enc clone) fs h' of
            Inl p \<Rightarrow> Inl p
          | Inr h'' \<Rightarrow> Inr (clone, h'')))"

text \<open>
  \<^verbatim>\<open>c.Enabled\<close> is promoted from the embedded interface; calling it on a nil interface
  panics.
\<close>

definition Enabled :: "Core \<Rightarrow> Level \<Rightarrow> panic + bool" where
  "Enabled c lvl =
     (case LevelEnabler c of None \<Rightarrow> Inl NilPointerDereference | Some enab \<Rightarrow> Inr (enab lvl))"

text \<open>
  \<^verbatim>\<open>zapcore.CheckedEntry\<close> and its \<^verbatim>\<open>AddCore\<close>: a nil checked entry is replaced by a new
  one for the entry, and the core is appended to the cores that will write it.
\<close>

record CheckedEntry =
  ce_Entry :: Entry
  cores :: "Core list"

definition AddCore :: "CheckedEntry option \<Rightarrow> Entry \<Rightarrow> Core \<Rightarrow> CheckedEntry option" where
  "AddCore ce ent core =
     (case ce of
        None \<Rightarrow> Some \<lparr>ce_Entry = ent, cores = [core]\<rparr>
      | Some x \<Rightarrow> Some (x\<lparr>cores := cores x @ [core]\<rparr>))"

definition Check :: "Core \<Rightarrow> Entry \<Rightarrow> CheckedEntry option \<Rightarrow> panic + CheckedEntry option" where
  "Check c ent ce =
     (case Enabled c (Level ent) of
        Inl p \<Rightarrow> Inl p
      | Inr b \<Rightarrow> if b then Inr (AddCore ce ent c) else Inr ce)"

definition Sync :: "'s WriteSyncer \<Rightarrow> Core \<Rightarrow> 's Store \<Rightarrow> error option \<times> 's Store" where
  "Sync W c h =
     (let (s', r) = ws_Sync W (sinks h (ws c));
          h' = h\<lparr>sinks := (sinks h)(ws c := s')\<rparr>
      in case r of
           Some err \<Rightarrow>
             if \<not> knownSyncError err then (Some (Errorf ''faild to sync logger: %w'' err), h')
             else (None, h')
         | None \<Rightarrow> (None, h'))"

text \<open>
  \<^verbatim>\<open>Write\<close>. A panic while merging the core's fields into the encoder is the outcome of
  the call; otherwise the call returns an optional error and leaves a store.
\<close>

definition Write ::
  "'s WriteSyncer \<Rightarrow> EncodeEntry \<Rightarrow> Core \<Rightarrow> Entry \<Rightarrow> Field list \<Rightarrow> 's Store \<Rightarrow>
     panic + error option \<times> 's Store" where
  "Write W EncodeEntry c ent fs h =
     (case forEach (\<lambda>field h'. AddTo field (enc c) h') (fields' c) h of
        Inl p \<Rightarrow> Inl p
      | Inr h1 \<Rightarrow>
          Inr (case EncodeEntry (encs h1 (enc c)) ent fs of
                 Inl err \<Rightarrow> (Some (Errorf ''could not encode entry: %w'' err), h1)
               | Inr buf \<Rightarrow>
                   (let (s', r) = ws_Write W (sinks h1 (ws c)) buf;
                        h2 = h1\<lparr>sinks := (sinks h1)(ws c := s')\<rparr>
                    in (case r of
                          Some err \<Rightarrow> (Some (Errorf ''could not write buf: %w'' err), h2)
                        | None \<Rightarrow>
                            (if ErrorLevel <s Level ent then (None, snd (Sync W c h2))
                             else (None, h2))))))"

section \<open>Construction\<close>

datatype Option = WithInitialFields "(string \<times> anyval) list" | WithWriteSyncer addr

fun Option_apply :: "Option \<Rightarrow> Core \<Rightarrow> Core" where
  "Option_apply (WithInitialFields m) c = c\<lparr>initFields := m\<rparr>"
| "Option_apply (WithWriteSyncer w) c = c\<lparr>ws := w\<rparr>"

text \<open>\<^verbatim>\<open>m[k]\<close> on a Go map: the value stored under the key, or the zero value.\<close>

definition map_index :: "(string \<times> anyval) list \<Rightarrow> string \<Rightarrow> anyval" where
  "map_index m k = (case map_of m k of None \<Rightarrow> nil | Some v \<Rightarrow> v)"

text \<open>
  \<^verbatim>\<open>newCore\<close>. \<open>res\<close> is the descriptor that \<^verbatim>\<open>monitoredresource.Detect()\<close> returns.
  \<^verbatim>\<open>sort.Strings\<close> orders strings bytewise, which is the lexicographic order on
  \<^typ>\<open>string\<close>.
\<close>

definition newCore ::
  "addr \<Rightarrow> (Level \<Rightarrow> bool) option \<Rightarrow> Option list \<Rightarrow> MonitoredResource \<Rightarrow> 's Store \<Rightarrow>
     Core \<times> 's Store" where
  "newCore w enab opts res h =
     (let (e, h') = NewJSONEncoder h;
          core = \<lparr>LevelEnabler = enab, enc = e, ws = w, fields' = [], initFields = []\<rparr>;
          core = foldl (\<lambda>c opt. Option_apply opt c) core opts;
          core = core\<lparr>fields' := [zap_String (Type res) (LogID res), zap_Inline res]\<rparr>;
          core = (if length (initFields core) > 0
                  then
                    let keys = sort (map fst (initFields core));
                        fs = map (\<lambda>k. zap_Any k (map_index (initFields core) k)) keys
                    in core\<lparr>fields' := fields' core @ fs\<rparr>
                  else core)
      in (core, h'))"

text \<open>The stock core of zapcore, as \<^verbatim>\<open>zapcore.NewCore(enc, ws, enab)\<close> builds it.\<close>

record ioCore =
  io_LevelEnabler :: "(Level \<Rightarrow> bool) option"
  io_enc :: addr
  io_out :: addr

definition zapcore_NewCore :: "addr \<Rightarrow> addr \<Rightarrow> (Level \<Rightarrow> bool) option \<Rightarrow> ioCore" where
  "zapcore_NewCore e w enab = \<lparr>io_LevelEnabler = enab, io_enc = e, io_out = w\<rparr>"

definition NewCore ::
  "addr \<Rightarrow> (Level \<Rightarrow> bool) option \<Rightarrow> Option list \<Rightarrow> MonitoredResource \<Rightarrow> 's Store \<Rightarrow>
     ioCore \<times> 's Store" where
  "NewCore w enab opts res h =
     (let (core, h') = newCore w enab opts res h
      in (zapcore_NewCore (enc core) (ws core) (LevelEnabler core), h'))"

section \<open>Sample collaborators\<close>

text \<open>
  Concrete sinks, an encoder and a store on which the operations can be evaluated. The sink
  state is the list of byte strings written so far and the number of flushes; \<open>sliceSink r\<close>
  accepts every write and answers every flush with \<open>r\<close>. \<open>keyEncoder\<close> renders the
  message followed by the keys of the context and of the fields, and refuses an entry with an
  empty message. \<open>noSymbols\<close> is a symbol lookup that resolves no program counter.
\<close>

definition sliceSink :: "error option \<Rightarrow> (string list \<times> nat) WriteSyncer" where
  "sliceSink r =
     \<lparr>ws_Write = (\<lambda>(written, flushes) buf. ((written @ [buf], flushes), None)),
      ws_Sync = (\<lambda>(written, flushes). ((written, Suc flushes), r))\<rparr>"

definition keyEncoder :: EncodeEntry where
  "keyEncoder ctx ent fs =
     (if Message ent = [] then Inl (errorString ''empty message'')
      else Inr (Message ent @ concat (map (\<lambda>f. CHR '' '' # Key f) (ctx @ fs))))"

definition emptyStore :: "(string list \<times> nat) Store" where
  "emptyStore = \<lparr>encs = (\<lambda>a. []), next_enc = 1, sinks = (\<lambda>a. ([], 0))\<rparr>"

definition neverEnabled :: "Level \<Rightarrow> bool" where
  "neverEnabled lvl = False"

definition sampleCore :: Core where
  "sampleCore = \<lparr>LevelEnabler = Some neverEnabled, enc = 0, ws = 0,
                 fields' = [zap_String ''service'' ''api''], initFields = []\<rparr>"

definition sampleEntry :: "Level \<Rightarrow> Entry" where
  "sampleEntry lvl = \<lparr>Level = lvl, Message = ''started''\<rparr>"

definition EIO :: error where "EIO = Errno 5"

definition noSymbols :: "nat \<Rightarrow> string option" where
  "noSymbols pc = None"

lemmas Level_defs =
  DebugLevel_def InfoLevel_def WarnLevel_def ErrorLevel_def DPanicLevel_def PanicLevel_def
  FatalLevel_def

section \<open>Basic facts about the operations\<close>

lemma AddTo_eq:
  "AddTo field a h =
     (if Payload field = ObjectMarshalerType None then Inl NilPointerDereference
      else Inr (h\<lparr>encs := (encs h)(a := encs h a @ [field])\<rparr>))"
proof (cases "Payload field")
  case (ObjectMarshalerType l)
  show ?thesis
  proof (cases l)
    case None
    with ObjectMarshalerType show ?thesis
      by (simp add: AddTo_def MarshalLogObject_def)
  next
    case (Some x)
    with ObjectMarshalerType show ?thesis
      by (cases x) (simp add: AddTo_def MarshalLogObject_def)
  qed
qed (simp_all add: AddTo_def)

text \<open>
  Adding a list of fields to an encoder panics exactly when one of them holds a nil object
  marshaller; otherwise the fields are appended to the context in order.
\<close>

lemma forEach_AddTo:
  "forEach (\<lambda>field h'. AddTo field a h') fs h =
     (if \<exists>f\<in>set fs. Payload f = ObjectMarshalerType None then Inl NilPointerDereference
      else Inr (h\<lparr>encs := (encs h)(a := encs h a @ fs)\<rparr>))"
proof (induction fs arbitrary: h)
  case Nil
  show ?case by simp
next
  case (Cons f fs)
  show ?case
  proof (cases "Payload f = ObjectMarshalerType None")
    case True
    then show ?thesis by (simp add: AddTo_eq [of f])
  next
    case False
    then have step: "forEach (\<lambda>field h'. AddTo field a h') (f # fs) h =
        forEach (\<lambda>field h'. AddTo field a h') fs (h\<lparr>encs := (encs h)(a := encs h a @ [f])\<rparr>)"
      by (simp add: AddTo_eq [of f])
    have upd: "(h\<lparr>encs := (encs h)(a := encs h a @ [f])\<rparr>)
        \<lparr>encs := (encs (h\<lparr>encs := (encs h)(a := encs h a @ [f])\<rparr>))
           (a := encs (h\<lparr>encs := (encs h)(a := encs h a @ [f])\<rparr>) a @ fs)\<rparr> =
        h\<lparr>encs := (encs h)(a := encs h a @ f # fs)\<rparr>"
      by simp
    have ex: "(\<exists>g\<in>set (f # fs). Payload g = ObjectMarshalerType None) =
        (\<exists>g\<in>set fs. Payload g = ObjectMarshalerType None)"
      using False by simp
    show ?thesis
      by (simp only: step Cons.IH upd ex)
  qed
qed

lemma addFields_eq:
  "addFields a fs h =
     (if \<exists>f\<in>set fs. Payload f = ObjectMarshalerType None then Inl NilPointerDereference
      else Inr (h\<lparr>encs := (encs h)(a := encs h a @ fs)\<rparr>))"
  by (simp add: addFields_def forEach_AddTo)

lemma copy_make: "copy (replicate (length xs) z) xs = xs"
  by (simp add: copy_def)

lemma clone_eq:
  "clone c h =
     (\<lparr>LevelEnabler = None, enc = next_enc h, ws = ws c, fields' = fields' c, initFields = []\<rparr>,
      h\<lparr>encs := (encs h)(next_enc h := encs h (enc c)), next_enc := Suc (next_enc h)\<rparr>)"
  by (simp add: clone_def Encoder_Clone_def copy_make)

lemma With_eq:
  "With c fs h =
     (if \<exists>f\<in>set fs. Payload f = ObjectMarshalerType None then Inl NilPointerDereference
      else Inr (\<lparr>LevelEnabler = None, enc = next_enc h, ws = ws c, fields' = fields' c,
                  initFields = []\<rparr>,
                h\<lparr>encs := (encs h)(next_enc h := encs h (enc c) @ fs),
                   next_enc := Suc (next_enc h)\<rparr>))"
  by (simp add: With_def clone_eq addFields_eq)

lemma Sync_eq:
  "Sync W c h =
     (case snd (ws_Sync W (sinks h (ws c))) of
        None \<Rightarrow> None
      | Some err \<Rightarrow> if knownSyncError err then None
                    else Some (wrapError ''faild to sync logger: %w'' err),
      h\<lparr>sinks := (sinks h)(ws c := fst (ws_Sync W (sinks h (ws c))))\<rparr>)"
  by (simp add: Sync_def Errorf_def split: prod.splits option.splits)

text \<open>
  \<^verbatim>\<open>Write\<close> with its steps spelled out: unless merging the core's fields panics, the
  context handed to the encoder is the encoder's buffer followed by the core's accumulated
  fields.
\<close>

lemma Write_eq:
  "Write W E c ent fs h =
     (if \<exists>f\<in>set (fields' c). Payload f = ObjectMarshalerType None
      then Inl NilPointerDereference
      else Inr
       (let ctx = encs h (enc c) @ fields' c;
            h1 = h\<lparr>encs := (encs h)(enc c := ctx)\<rparr>
        in case E ctx ent fs of
             Inl err \<Rightarrow> (Some (wrapError ''could not encode entry: %w'' err), h1)
           | Inr buf \<Rightarrow>
               (let s1 = fst (ws_Write W (sinks h (ws c)) buf);
                    h2 = h1\<lparr>sinks := (sinks h)(ws c := s1)\<rparr>
                in case snd (ws_Write W (sinks h (ws c)) buf) of
                     Some err \<Rightarrow> (Some (wrapError ''could not write buf: %w'' err), h2)
                   | None \<Rightarrow>
                       if ErrorLevel <s Level ent
                       then (None, h1\<lparr>sinks := (sinks h)(ws c := fst (ws_Sync W s1))\<rparr>)
                       else (None, h2))))"
  by (simp add: Write_def forEach_AddTo Sync_eq Errorf_def Let_def
      split: prod.splits sum.splits option.splits)

lemma errors_Is_chain: "errors_Is err target \<longleftrightarrow> target \<in> set (unwrapChain err)"
  by (induction err) auto

lemma errors_Is_refl: "errors_Is err err"
  by (cases err) simp_all


lemma newCore_eq:
  "newCore w enab opts res h =
     (let c0 = foldl (\<lambda>c opt. Option_apply opt c)
                 \<lparr>LevelEnabler = enab, enc = next_enc h, ws = w, fields' = [], initFields = []\<rparr>
                 opts
      in (c0\<lparr>fields' := zap_String (Type res) (LogID res) # zap_Inline res #
              map (\<lambda>k. zap_Any k (map_index (initFields c0) k)) (sort (map fst (initFields c0)))\<rparr>,
          h\<lparr>encs := (encs h)(next_enc h := []), next_enc := Suc (next_enc h)\<rparr>))"
  by (simp add: newCore_def NewJSONEncoder_def Let_def)

lemma foldl_Option_apply_enc:
  "enc (foldl (\<lambda>c opt. Option_apply opt c) c opts) = enc c"
proof (induction opts arbitrary: c)
  case Nil
  show ?case by simp
next
  case (Cons opt opts)
  then show ?case by (cases opt) simp_all
qed

lemma foldl_Option_apply_LevelEnabler:
  "LevelEnabler (foldl (\<lambda>c opt. Option_apply opt c) c opts) = LevelEnabler c"
proof (induction opts arbitrary: c)
  case Nil
  show ?case by simp
next
  case (Cons opt opts)
  then show ?case by (cases opt) simp_all
qed

lemma foldl_Option_apply_ws:
  "ws c = ws c' \<Longrightarrow>
   ws (foldl (\<lambda>c opt. Option_apply opt c) c opts) =
   ws (foldl (\<lambda>c opt. Option_apply opt c) c' opts)"
proof (induction opts arbitrary: c c')
  case Nil
  then show ?case by simp
next
  case (Cons opt opts)
  from Cons.prems have "ws (Option_apply opt c) = ws (Option_apply opt c')"
    by (cases opt) simp_all
  then have "ws (foldl (\<lambda>c opt. Option_apply opt c) (Option_apply opt c) opts) =
      ws (foldl (\<lambda>c opt. Option_apply opt c) (Option_apply opt c') opts)"
    by (rule Cons.IH)
  then show ?case by simp
qed

lemma NewCore_eq:
  "NewCore w enab opts res h =
     (\<lparr>io_LevelEnabler = enab, io_enc = next_enc h,
       io_out = ws (foldl (\<lambda>c opt. Option_apply opt c)
                 \<lparr>LevelEnabler = enab, enc = next_enc h, ws = w, fields' = [], initFields = []\<rparr>
                 opts)\<rparr>,
      h\<lparr>encs := (encs h)(next_enc h := []), next_enc := Suc (next_enc h)\<rparr>)"
  by (simp add: NewCore_def newCore_eq Let_def zapcore_NewCore_def foldl_Option_apply_enc
      foldl_Option_apply_LevelEnabler)



lemmas sample_defs = sliceSink_def keyEncoder_def emptyStore_def neverEnabled_def sampleCore_def
  sampleEntry_def EIO_def

section \<open>Severity mapping\<close>

lemma levelToSeverity_values:
  "map levelToSeverity definedLevels =
     [Some DEBUG, Some INFO, Some WARNING, Some ERROR, Some CRITICAL, Some ALERT, Some EMERGENCY]"
  by (simp add: levelToSeverity_def definedLevels_def Level_defs)

lemma dom_levelToSeverity: "dom levelToSeverity = set definedLevels"
  by (auto simp: levelToSeverity_def definedLevels_def Level_defs dom_map_of_conv_image_fst)

text \<open>
  C6. The level-to-severity table maps each of the seven defined levels, and only those, to
  the stated severity (DEBUG to DEBUG, INFO to INFO, WARN to WARNING, ERROR to ERROR, DPANIC
  to CRITICAL, PANIC to ALERT, FATAL to EMERGENCY); no two levels share a severity, and the
  names written by the level encoder are pairwise different as well.
\<close>

theorem levelToSeverity_total_injective:
  "levelToSeverity DebugLevel = Some DEBUG \<and>
   levelToSeverity InfoLevel = Some INFO \<and>
   levelToSeverity WarnLevel = Some WARNING \<and>
   levelToSeverity ErrorLevel = Some ERROR \<and>
   levelToSeverity DPanicLevel = Some CRITICAL \<and>
   levelToSeverity PanicLevel = Some ALERT \<and>
   levelToSeverity FatalLevel = Some EMERGENCY \<and>
   dom levelToSeverity = set definedLevels \<and>
   distinct definedLevels \<and>
   distinct (map levelToSeverity_index definedLevels) \<and>
   distinct (map (\<lambda>l. levelEncoder l []) definedLevels)"
proof -
  have vals: "map levelToSeverity definedLevels =
     [Some DEBUG, Some INFO, Some WARNING, Some ERROR, Some CRITICAL, Some ALERT, Some EMERGENCY]"
    by (rule levelToSeverity_values)
  have idx: "map levelToSeverity_index definedLevels =
     [DEBUG, INFO, WARNING, ERROR, CRITICAL, ALERT, EMERGENCY]"
    by (simp add: levelToSeverity_index_def levelToSeverity_def definedLevels_def Level_defs)
  have enc: "map (\<lambda>l. levelEncoder l []) definedLevels =
     [[''DEBUG''], [''INFO''], [''WARNING''], [''ERROR''], [''CRITICAL''], [''ALERT''],
      [''EMERGENCY'']]"
    by (simp add: levelEncoder_def levelToSeverity_index_def levelToSeverity_def
        definedLevels_def Level_defs)
  have d: "distinct definedLevels"
    by (simp add: definedLevels_def Level_defs)
  from vals have "levelToSeverity DebugLevel = Some DEBUG"
    "levelToSeverity InfoLevel = Some INFO"
    "levelToSeverity WarnLevel = Some WARNING"
    "levelToSeverity ErrorLevel = Some ERROR"
    "levelToSeverity DPanicLevel = Some CRITICAL"
    "levelToSeverity PanicLevel = Some ALERT"
    "levelToSeverity FatalLevel = Some EMERGENCY"
    by (simp_all add: definedLevels_def)
  moreover have "distinct (map levelToSeverity_index definedLevels)"
    unfolding idx by simp
  moreover have "distinct (map (\<lambda>l. levelEncoder l []) definedLevels)"
    unfolding enc by simp
  ultimately show ?thesis
    using d dom_levelToSeverity by simp
qed

section \<open>The source location field\<close>

text \<open>
  C7. With \<^verbatim>\<open>ok = false\<close>, \<^verbatim>\<open>newSource\<close> returns nil, and \<^verbatim>\<open>SourceLocation\<close>
  still wraps it with \<^verbatim>\<open>zap.Object\<close>: the result is an object field under the source
  location key, not the field that is skipped, and marshalling its nil value dereferences a
  nil pointer. So the field is not left out when the caller is unknown.
\<close>

theorem SourceLocation_not_ok:
  "SourceLocation FuncForPC gopathSrc pc file line False =
     Field SourceLocationKey (ObjectMarshalerType None) \<and>
   SourceLocation FuncForPC gopathSrc pc file line False \<noteq> zap_Skip \<and>
   MarshalLogObject (newSource FuncForPC gopathSrc pc file line False) oe =
     Inl NilPointerDereference"
  by (simp add: SourceLocation_def newSource_def zap_Object_def zap_Skip_def
      MarshalLogObject_def)

text \<open>
  With \<^verbatim>\<open>ok = true\<close> and a program counter that the symbol lookup does not resolve,
  the field carries the file and the line, and an empty function name.
\<close>

lemma SourceLocation_unresolved:
  "FuncForPC pc = None \<Longrightarrow>
   SourceLocation FuncForPC gopathSrc pc file line True =
     Field SourceLocationKey (ObjectMarshalerType
       (Some (sourceLocation (Some \<lparr>File = file, Line = line, Function = []\<rparr>)))) \<and>
   MarshalLogObject (newSource FuncForPC gopathSrc pc file line True) [] =
     Inr [(''file'', PString file), (''line'', PInt64 line), (''function'', PString [])]"
  by (simp add: SourceLocation_def newSource_def zap_Object_def MarshalLogObject_def
      AddString_def AddInt64_def GetFile_def GetLine_def GetFunction_def)

section \<open>Constructed cores\<close>



text \<open>
  C9. \<^verbatim>\<open>NewCore\<close> returns the stock core built from the encoder, the sink and the level
  filter of the core that \<^verbatim>\<open>newCore\<close> constructs, and nothing else of it. The encoder is
  new and its context is empty, while the constructed core, which is dropped, holds at least
  the two resource fields. The returned core is the same for every resource descriptor and
  with or without an option for initial fields, so those fields cannot reach what it writes.
\<close>

theorem NewCore_returns_stock_core:
  "NewCore w enab opts res h =
     (zapcore_NewCore (enc (fst (newCore w enab opts res h))) (ws (fst (newCore w enab opts res h)))
        (LevelEnabler (fst (newCore w enab opts res h))),
      snd (newCore w enab opts res h)) \<and>
   io_LevelEnabler (fst (NewCore w enab opts res h)) = enab \<and>
   io_enc (fst (NewCore w enab opts res h)) = next_enc h \<and>
   encs (snd (NewCore w enab opts res h)) (io_enc (fst (NewCore w enab opts res h))) = [] \<and>
   2 \<le> length (fields' (fst (newCore w enab opts res h))) \<and>
   NewCore w enab opts res' h = NewCore w enab opts res h \<and>
   NewCore w enab (opts @ WithInitialFields m # opts') res h = NewCore w enab (opts @ opts') res h"
proof -
  have a: "NewCore w enab opts res h =
     (zapcore_NewCore (enc (fst (newCore w enab opts res h))) (ws (fst (newCore w enab opts res h)))
        (LevelEnabler (fst (newCore w enab opts res h))),
      snd (newCore w enab opts res h))"
    by (simp add: NewCore_def split: prod.splits)
  have b: "io_LevelEnabler (fst (NewCore w enab opts res h)) = enab"
    "io_enc (fst (NewCore w enab opts res h)) = next_enc h"
    "encs (snd (NewCore w enab opts res h)) (io_enc (fst (NewCore w enab opts res h))) = []"
    by (simp_all add: NewCore_eq)
  have c: "2 \<le> length (fields' (fst (newCore w enab opts res h)))"
    by (simp add: newCore_eq Let_def)
  have d: "NewCore w enab opts res' h = NewCore w enab opts res h"
    by (simp add: NewCore_eq)
  have e: "NewCore w enab (opts @ WithInitialFields m # opts') res h =
      NewCore w enab (opts @ opts') res h"
  proof -
    have "ws (foldl (\<lambda>c opt. Option_apply opt c)
              (Option_apply (WithInitialFields m) (foldl (\<lambda>c opt. Option_apply opt c)
                 \<lparr>LevelEnabler = enab, enc = next_enc h, ws = w, fields' = [], initFields = []\<rparr>
                 opts)) opts') =
          ws (foldl (\<lambda>c opt. Option_apply opt c)
              (foldl (\<lambda>c opt. Option_apply opt c)
                 \<lparr>LevelEnabler = enab, enc = next_enc h, ws = w, fields' = [], initFields = []\<rparr>
                 opts) opts')"
      by (rule foldl_Option_apply_ws) simp
    then show ?thesis
      by (simp add: NewCore_eq)
  qed
  from a b c d e show ?thesis by simp
qed

section \<open>Checking and writing\<close>

text \<open>
  C1, as stated, fails: \<^verbatim>\<open>Write\<close> does not look at the level filter. On a core whose filter
  rejects every level, writing a debug entry adds the core's fields to the encoder's buffer
  and writes the encoded entry to the sink.
\<close>

theorem Write_disabled_level_counterexample:
  "LevelEnabler sampleCore = Some neverEnabled \<and>
   \<not> neverEnabled (Level (sampleEntry DebugLevel)) \<and>
   Write (sliceSink None) keyEncoder sampleCore (sampleEntry DebugLevel) [] emptyStore =
     Inr (None, emptyStore\<lparr>encs := (encs emptyStore)(0 := [zap_String ''service'' ''api'']),
                            sinks := (sinks emptyStore)(0 := ([''started service''], 0))\<rparr>) \<and>
   encs (emptyStore\<lparr>encs := (encs emptyStore)(0 := [zap_String ''service'' ''api'']),
                    sinks := (sinks emptyStore)(0 := ([''started service''], 0))\<rparr>)
      (enc sampleCore) \<noteq> encs emptyStore (enc sampleCore) \<and>
   sinks (emptyStore\<lparr>encs := (encs emptyStore)(0 := [zap_String ''service'' ''api'']),
                     sinks := (sinks emptyStore)(0 := ([''started service''], 0))\<rparr>)
      (ws sampleCore) \<noteq> sinks emptyStore (ws sampleCore)"
  by (simp add: Write_eq sample_defs zap_String_def Level_defs word_sless_alt)

text \<open>
  C1, amended. It is \<^verbatim>\<open>Check\<close> that does nothing for a rejected level: it returns the
  checked entry it was given, without adding the core to it, and it reads neither the encoder
  nor the sink. \<^verbatim>\<open>Write\<close> behaves the same whatever the level filter is.
\<close>

theorem Check_disabled_level_noop:
  assumes "LevelEnabler c = Some enab" and "\<not> enab (Level ent)"
  shows "Check c ent ce = Inr ce \<and>
         (\<forall>l. Write W E (c\<lparr>LevelEnabler := l\<rparr>) ent fs h = Write W E c ent fs h)"
  using assms
  by (simp add: Check_def Enabled_def Write_eq Let_def split: sum.splits option.splits)

theorem Check_disabled_level_noop_witness:
  "LevelEnabler sampleCore = Some neverEnabled \<and>
   \<not> neverEnabled (Level (sampleEntry DebugLevel)) \<and>
   Check sampleCore (sampleEntry DebugLevel) None = Inr None"
proof -
  have l: "LevelEnabler sampleCore = Some neverEnabled"
    by (simp add: sampleCore_def)
  have n: "\<not> neverEnabled (Level (sampleEntry DebugLevel))"
    by (simp add: neverEnabled_def)
  from Check_disabled_level_noop [OF l n] l n show ?thesis by blast
qed

text \<open>
  C8. When encoding the entry fails, \<^verbatim>\<open>Write\<close> returns an error that wraps the
  encoder's error (the \<^verbatim>\<open>%w\<close> wrapper around it, so that the encoder's error is its
  cause), and no sink changes. This is what every returning call does; the call returns
  unless one of the core's own fields holds a nil object marshaller, in which case merging
  the fields has panicked before the encoder is reached.
\<close>

theorem Write_encode_failure:
  assumes "E (encs h (enc c) @ fields' c) ent fs = Inl err"
  shows "Write W E c ent fs h =
           (if \<exists>f\<in>set (fields' c). Payload f = ObjectMarshalerType None
            then Inl NilPointerDereference
            else Inr (Some (Errorf ''could not encode entry: %w'' err),
                      h\<lparr>encs := (encs h)(enc c := encs h (enc c) @ fields' c)\<rparr>)) \<and>
         Errorf ''could not encode entry: %w'' err =
           wrapError ''could not encode entry: %w'' err \<and>
         errors_Is (Errorf ''could not encode entry: %w'' err) err \<and>
         (\<forall>r h'. Write W E c ent fs h = Inr (r, h') \<longrightarrow>
            r = Some (Errorf ''could not encode entry: %w'' err) \<and> sinks h' = sinks h)"
proof -
  have w: "Write W E c ent fs h =
           (if \<exists>f\<in>set (fields' c). Payload f = ObjectMarshalerType None
            then Inl NilPointerDereference
            else Inr (Some (Errorf ''could not encode entry: %w'' err),
                      h\<lparr>encs := (encs h)(enc c := encs h (enc c) @ fields' c)\<rparr>))"
    using assms by (simp add: Write_eq Errorf_def)
  have r: "r = Some (Errorf ''could not encode entry: %w'' err) \<and> sinks h' = sinks h"
    if ret: "Write W E c ent fs h = Inr (r, h')" for r h'
  proof (cases "\<exists>f\<in>set (fields' c). Payload f = ObjectMarshalerType None")
    case True
    with w have "Write W E c ent fs h = Inl NilPointerDereference"
      by (simp only: if_True)
    with ret show ?thesis by simp
  next
    case False
    with w have "Write W E c ent fs h =
        Inr (Some (Errorf ''could not encode entry: %w'' err),
             h\<lparr>encs := (encs h)(enc c := encs h (enc c) @ fields' c)\<rparr>)"
      by (simp only: if_False)
    with ret have "r = Some (Errorf ''could not encode entry: %w'' err)"
      and "h' = h\<lparr>encs := (encs h)(enc c := encs h (enc c) @ fields' c)\<rparr>"
      by simp_all
    then show ?thesis by simp
  qed
  then have r': "\<forall>r h'. Write W E c ent fs h = Inr (r, h') \<longrightarrow>
      r = Some (Errorf ''could not encode entry: %w'' err) \<and> sinks h' = sinks h"
    by (intro allI impI)
  have e: "Errorf ''could not encode entry: %w'' err =
           wrapError ''could not encode entry: %w'' err"
    by (simp add: Errorf_def)
  have i: "errors_Is (Errorf ''could not encode entry: %w'' err) err"
    by (simp add: Errorf_def errors_Is_refl)
  show ?thesis
    by (rule conjI [OF w conjI [OF e conjI [OF i r']]])
qed

text \<open>The sample encoder refuses an entry without a message.\<close>

theorem Write_encode_failure_witness:
  "keyEncoder (encs emptyStore (enc sampleCore) @ fields' sampleCore)
      \<lparr>Level = InfoLevel, Message = []\<rparr> [] = Inl (errorString ''empty message'') \<and>
   Write (sliceSink None) keyEncoder sampleCore \<lparr>Level = InfoLevel, Message = []\<rparr> []
      emptyStore =
     Inr (Some (wrapError ''could not encode entry: %w'' (errorString ''empty message'')),
          emptyStore\<lparr>encs := (encs emptyStore)(0 := [zap_String ''service'' ''api''])\<rparr>) \<and>
   sinks (emptyStore\<lparr>encs := (encs emptyStore)(0 := [zap_String ''service'' ''api''])\<rparr>) =
     sinks emptyStore"
proof -
  have e: "keyEncoder (encs emptyStore (enc sampleCore) @ fields' sampleCore)
      \<lparr>Level = InfoLevel, Message = []\<rparr> [] = Inl (errorString ''empty message'')"
    by (simp add: keyEncoder_def)
  note t = Write_encode_failure [where E = keyEncoder and h = emptyStore and c = sampleCore
      and ent = "\<lparr>Level = InfoLevel, Message = []\<rparr>" and fs = "[]"
      and err = "errorString ''empty message''" and W = "sliceSink None", OF e]
  from t have "Write (sliceSink None) keyEncoder sampleCore \<lparr>Level = InfoLevel, Message = []\<rparr>
      [] emptyStore =
      (if \<exists>f\<in>set (fields' sampleCore). Payload f = ObjectMarshalerType None
       then Inl NilPointerDereference
       else Inr (Some (Errorf ''could not encode entry: %w'' (errorString ''empty message'')),
                 emptyStore\<lparr>encs := (encs emptyStore)(enc sampleCore :=
                    encs emptyStore (enc sampleCore) @ fields' sampleCore)\<rparr>))"
    by (rule conjunct1)
  then have w: "Write (sliceSink None) keyEncoder sampleCore
      \<lparr>Level = InfoLevel, Message = []\<rparr> [] emptyStore =
     Inr (Some (wrapError ''could not encode entry: %w'' (errorString ''empty message'')),
          emptyStore\<lparr>encs := (encs emptyStore)(0 := [zap_String ''service'' ''api''])\<rparr>)"
    by (simp add: Errorf_def sampleCore_def emptyStore_def zap_String_def)
  have s: "sinks (emptyStore\<lparr>encs := (encs emptyStore)(0 := [zap_String ''service'' ''api''])\<rparr>) =
     sinks emptyStore"
    by simp
  from e w s show ?thesis by (intro conjI)
qed

text \<open>
  C3. For an entry whose level is above \<^verbatim>\<open>ErrorLevel\<close>, the outcome of \<^verbatim>\<open>Write\<close> is
  the same whatever the sink's flush does; and when the core's fields have been merged and
  encoding and the sink's write succeed, \<^verbatim>\<open>Write\<close> returns nil and leaves the store as
  \<^verbatim>\<open>Sync\<close> leaves it after the write: the sink has been flushed once after the bytes
  were written.
\<close>

theorem Write_high_severity_discards_Sync_error:
  assumes "ErrorLevel <s Level ent"
  shows "(\<forall>g. map_sum id fst (Write (W\<lparr>ws_Sync := g\<rparr>) E c ent fs h) =
              map_sum id fst (Write W E c ent fs h)) \<and>
         (\<forall>buf s1. (\<forall>f\<in>set (fields' c). Payload f \<noteq> ObjectMarshalerType None) \<and>
                   E (encs h (enc c) @ fields' c) ent fs = Inr buf \<and>
                   ws_Write W (sinks h (ws c)) buf = (s1, None) \<longrightarrow>
            Write W E c ent fs h =
              Inr (None,
                   snd (Sync W c (h\<lparr>encs := (encs h)(enc c := encs h (enc c) @ fields' c),
                                      sinks := (sinks h)(ws c := s1)\<rparr>))) \<and>
            sinks (snd (Sync W c (h\<lparr>encs := (encs h)(enc c := encs h (enc c) @ fields' c),
                                     sinks := (sinks h)(ws c := s1)\<rparr>))) (ws c) =
              fst (ws_Sync W s1))"
proof -
  have indep: "map_sum id fst (Write (W\<lparr>ws_Sync := g\<rparr>) E c ent fs h) =
      map_sum id fst (Write W E c ent fs h)" for g
    by (simp add: Write_eq Let_def split: sum.splits option.splits)
  have flush: "Write W E c ent fs h =
              Inr (None,
                   snd (Sync W c (h\<lparr>encs := (encs h)(enc c := encs h (enc c) @ fields' c),
                                      sinks := (sinks h)(ws c := s1)\<rparr>))) \<and>
            sinks (snd (Sync W c (h\<lparr>encs := (encs h)(enc c := encs h (enc c) @ fields' c),
                                     sinks := (sinks h)(ws c := s1)\<rparr>))) (ws c) =
              fst (ws_Sync W s1)"
    if "\<forall>f\<in>set (fields' c). Payload f \<noteq> ObjectMarshalerType None"
      and "E (encs h (enc c) @ fields' c) ent fs = Inr buf"
      and "ws_Write W (sinks h (ws c)) buf = (s1, None)" for buf s1
    using that assms by (simp add: Write_eq Sync_eq Let_def)
  from indep flush show ?thesis by blast
qed

text \<open>
  A fatal entry on a sink whose flush fails with an I/O error: \<^verbatim>\<open>Sync\<close> alone reports
  the error, \<^verbatim>\<open>Write\<close> returns nil, and the sink has the bytes and one flush.
\<close>

theorem Write_high_severity_discards_Sync_error_witness:
  "ErrorLevel <s Level (sampleEntry FatalLevel) \<and>
   fields' sampleCore = [zap_String ''service'' ''api''] \<and>
   Payload (zap_String ''service'' ''api'') \<noteq> ObjectMarshalerType None \<and>
   fst (Sync (sliceSink (Some EIO)) sampleCore emptyStore) =
     Some (wrapError ''faild to sync logger: %w'' EIO) \<and>
   Write (sliceSink (Some EIO)) keyEncoder sampleCore (sampleEntry FatalLevel) [] emptyStore =
     Inr (None, emptyStore\<lparr>encs := (encs emptyStore)(0 := [zap_String ''service'' ''api'']),
                            sinks := (sinks emptyStore)(0 := ([''started service''], 1))\<rparr>)"
proof -
  have lvl: "ErrorLevel <s Level (sampleEntry FatalLevel)"
    by (simp add: sampleEntry_def Level_defs word_sless_alt)
  have m: "\<forall>f\<in>set (fields' sampleCore). Payload f \<noteq> ObjectMarshalerType None"
    by (simp add: sampleCore_def zap_String_def)
  have e: "keyEncoder (encs emptyStore (enc sampleCore) @ fields' sampleCore)
      (sampleEntry FatalLevel) [] = Inr ''started service''"
    by (simp add: sample_defs zap_String_def)
  have w: "ws_Write (sliceSink (Some EIO)) (sinks emptyStore (ws sampleCore)) ''started service''
      = (([''started service''], 0), None)"
    by (simp add: sample_defs)
  have s: "fst (Sync (sliceSink (Some EIO)) sampleCore emptyStore) =
     Some (wrapError ''faild to sync logger: %w'' EIO)"
    by (simp add: Sync_eq sample_defs knownSyncError_def EINVAL_def ENOTSUP_def ENOTTY_def
        EBADF_def)
  from Write_high_severity_discards_Sync_error [where ent = "sampleEntry FatalLevel"
      and W = "sliceSink (Some EIO)" and E = keyEncoder and c = sampleCore and fs = "[]"
      and h = emptyStore] lvl m e w
  have "Write (sliceSink (Some EIO)) keyEncoder sampleCore (sampleEntry FatalLevel) [] emptyStore =
      Inr (None, snd (Sync (sliceSink (Some EIO)) sampleCore
        (emptyStore\<lparr>encs := (encs emptyStore)(enc sampleCore :=
            encs emptyStore (enc sampleCore) @ fields' sampleCore),
          sinks := (sinks emptyStore)(ws sampleCore := ([''started service''], 0))\<rparr>)))"
    by blast
  then have "Write (sliceSink (Some EIO)) keyEncoder sampleCore (sampleEntry FatalLevel) []
      emptyStore =
     Inr (None, emptyStore\<lparr>encs := (encs emptyStore)(0 := [zap_String ''service'' ''api'']),
                       sinks := (sinks emptyStore)(0 := ([''started service''], 1))\<rparr>)"
    by (simp add: Sync_eq sample_defs)
  moreover have "fields' sampleCore = [zap_String ''service'' ''api'']"
    by (simp add: sampleCore_def)
  moreover have "Payload (zap_String ''service'' ''api'') \<noteq> ObjectMarshalerType None"
    by (simp add: zap_String_def)
  ultimately show ?thesis using lvl s by simp
qed

section \<open>Flushing\<close>

text \<open>
  C2. \<^verbatim>\<open>Sync\<close> returns nil exactly when the sink's flush succeeds or fails with a known
  error; any other flush error comes back inside the \<^verbatim>\<open>%w\<close> wrapper built by
  \<^verbatim>\<open>fmt.Errorf\<close>: the result is not the flush error itself, and the flush error is the
  next link of its chain. A flush error is known exactly when the chain of its causes
  contains one of the four error numbers EINVAL, ENOTSUP, ENOTTY and EBADF. The sink keeps
  the state the flush left it in.
\<close>

theorem Sync_benign_errors:
  assumes "ws_Sync W (sinks h (ws c)) = (s', r)"
  shows "((fst (Sync W c h) = None) =
            (r = None \<or> (\<exists>err. r = Some err \<and> knownSyncError err))) \<and>
         (\<forall>err. r = Some err \<and> \<not> knownSyncError err \<longrightarrow>
            fst (Sync W c h) = Some (wrapError ''faild to sync logger: %w'' err) \<and>
            fst (Sync W c h) \<noteq> Some err \<and>
            unwrapChain (wrapError ''faild to sync logger: %w'' err) =
              wrapError ''faild to sync logger: %w'' err # unwrapChain err \<and>
            errors_Is (wrapError ''faild to sync logger: %w'' err) err) \<and>
         (\<forall>err. knownSyncError err =
            (EINVAL \<in> set (unwrapChain err) \<or> ENOTSUP \<in> set (unwrapChain err) \<or>
             ENOTTY \<in> set (unwrapChain err) \<or> EBADF \<in> set (unwrapChain err))) \<and>
         snd (Sync W c h) = h\<lparr>sinks := (sinks h)(ws c := s')\<rparr>"
proof -
  have known: "knownSyncError err =
      (EINVAL \<in> set (unwrapChain err) \<or> ENOTSUP \<in> set (unwrapChain err) \<or>
       ENOTTY \<in> set (unwrapChain err) \<or> EBADF \<in> set (unwrapChain err))" for err
    by (simp add: knownSyncError_def errors_Is_chain)
  have wrapped: "errors_Is (wrapError ''faild to sync logger: %w'' err) err" for err
    by (simp add: errors_Is_refl)
  have neq: "wrapError ''faild to sync logger: %w'' err \<noteq> err" for err
    by (induction err) simp_all
  have res: "fst (Sync W c h) =
      (case r of None \<Rightarrow> None
       | Some err \<Rightarrow> if knownSyncError err then None
                     else Some (wrapError ''faild to sync logger: %w'' err))"
    using assms by (simp add: Sync_eq split: option.splits)
  have st: "snd (Sync W c h) = h\<lparr>sinks := (sinks h)(ws c := s')\<rparr>"
    using assms by (simp add: Sync_eq)
  have iff: "(fst (Sync W c h) = None) =
      (r = None \<or> (\<exists>err. r = Some err \<and> knownSyncError err))"
    unfolding res by (cases r) simp_all
  have other: "\<forall>err. r = Some err \<and> \<not> knownSyncError err \<longrightarrow>
      fst (Sync W c h) = Some (wrapError ''faild to sync logger: %w'' err) \<and>
      fst (Sync W c h) \<noteq> Some err \<and>
      unwrapChain (wrapError ''faild to sync logger: %w'' err) =
        wrapError ''faild to sync logger: %w'' err # unwrapChain err \<and>
      errors_Is (wrapError ''faild to sync logger: %w'' err) err"
    unfolding res using wrapped neq by simp
  from iff other known st show ?thesis by blast
qed

text \<open>
  The flush of standard output on Linux, \<^verbatim>\<open>sync /dev/stdout: invalid argument\<close>, is
  absorbed; an I/O error of a log file comes back wrapped.
\<close>

theorem Sync_benign_errors_witness:
  "ws_Sync (sliceSink (Some (PathError ''sync'' ''/dev/stdout'' EINVAL)))
      (sinks emptyStore (ws sampleCore)) =
     (([], 1), Some (PathError ''sync'' ''/dev/stdout'' EINVAL)) \<and>
   knownSyncError (PathError ''sync'' ''/dev/stdout'' EINVAL) \<and>
   fst (Sync (sliceSink (Some (PathError ''sync'' ''/dev/stdout'' EINVAL))) sampleCore emptyStore)
     = None \<and>
   ws_Sync (sliceSink (Some (PathError ''sync'' ''/var/log/app'' EIO)))
      (sinks emptyStore (ws sampleCore)) =
     (([], 1), Some (PathError ''sync'' ''/var/log/app'' EIO)) \<and>
   \<not> knownSyncError (PathError ''sync'' ''/var/log/app'' EIO) \<and>
   fst (Sync (sliceSink (Some (PathError ''sync'' ''/var/log/app'' EIO))) sampleCore emptyStore)
     = Some (wrapError ''faild to sync logger: %w'' (PathError ''sync'' ''/var/log/app'' EIO))"
proof -
  have h: "ws_Sync (sliceSink (Some (PathError ''sync'' ''/dev/stdout'' EINVAL)))
      (sinks emptyStore (ws sampleCore)) =
     (([], 1), Some (PathError ''sync'' ''/dev/stdout'' EINVAL))"
    by (simp add: sample_defs)
  have k: "knownSyncError (PathError ''sync'' ''/dev/stdout'' EINVAL)"
    by (simp add: knownSyncError_def EINVAL_def)
  have h2: "ws_Sync (sliceSink (Some (PathError ''sync'' ''/var/log/app'' EIO)))
      (sinks emptyStore (ws sampleCore)) =
     (([], 1), Some (PathError ''sync'' ''/var/log/app'' EIO))"
    by (simp add: sample_defs)
  have k2: "\<not> knownSyncError (PathError ''sync'' ''/var/log/app'' EIO)"
    by (simp add: knownSyncError_def EINVAL_def ENOTSUP_def ENOTTY_def EBADF_def EIO_def)
  from Sync_benign_errors [where W = "sliceSink (Some (PathError ''sync'' ''/dev/stdout'' EINVAL))"
      and h = emptyStore and c = sampleCore and s' = "([], 1)"
      and r = "Some (PathError ''sync'' ''/dev/stdout'' EINVAL)"] h k
  have a: "fst (Sync (sliceSink (Some (PathError ''sync'' ''/dev/stdout'' EINVAL))) sampleCore
      emptyStore) = None"
    by blast
  from Sync_benign_errors [where W = "sliceSink (Some (PathError ''sync'' ''/var/log/app'' EIO))"
      and h = emptyStore and c = sampleCore and s' = "([], 1)"
      and r = "Some (PathError ''sync'' ''/var/log/app'' EIO)"] h2 k2
  have b: "fst (Sync (sliceSink (Some (PathError ''sync'' ''/var/log/app'' EIO))) sampleCore
      emptyStore) =
      Some (wrapError ''faild to sync logger: %w'' (PathError ''sync'' ''/var/log/app'' EIO))"
    by blast
  from h k a h2 k2 b show ?thesis by simp
qed

section \<open>Derived cores\<close>

text \<open>
  A field list with an object field whose marshaller is nil, such as the field that
  \<^verbatim>\<open>SourceLocation\<close> builds for \<^verbatim>\<open>ok = false\<close>, makes \<^verbatim>\<open>With\<close> panic while the
  fields are added to the cloned encoder.
\<close>

lemma With_nil_object_panics:
  "\<exists>f\<in>set fs. Payload f = ObjectMarshalerType None \<Longrightarrow>
   With c fs h = Inl NilPointerDereference"
  by (simp add: With_eq)

lemma With_SourceLocation_not_ok_panics:
  "With sampleCore [SourceLocation noSymbols [] 0 [] 0 False] emptyStore =
     Inl NilPointerDereference"
  by (simp add: With_eq SourceLocation_def newSource_def zap_Object_def)




text \<open>
  C10. \<^verbatim>\<open>clone\<close> copies the encoder, the sink and the field list only. The core that
  \<^verbatim>\<open>With\<close> returns is that clone: it has no level filter and no initial fields, whatever
  the original had, so \<^verbatim>\<open>Enabled\<close> and \<^verbatim>\<open>Check\<close> on it call a nil interface.
  \<^verbatim>\<open>With\<close> returns it for every list of fields that can be added to the encoder.
\<close>

theorem With_drops_LevelEnabler:
  "LevelEnabler (fst (clone c h)) = None \<and>
   initFields (fst (clone c h)) = [] \<and>
   fields' (fst (clone c h)) = fields' c \<and>
   ws (fst (clone c h)) = ws c \<and>
   encs (snd (clone c h)) (enc (fst (clone c h))) = encs h (enc c) \<and>
   (\<forall>d h'. With c fs h = Inr (d, h') \<longrightarrow>
      d = fst (clone c h) \<and> LevelEnabler d = None \<and> initFields d = [] \<and>
      Enabled d lvl = Inl NilPointerDereference \<and>
      Check d ent ce = Inl NilPointerDereference) \<and>
   ((\<forall>f\<in>set fs. Payload f \<noteq> ObjectMarshalerType None) \<longrightarrow>
      (\<exists>h'. With c fs h = Inr (fst (clone c h), h')))"
proof -
  have cl: "LevelEnabler (fst (clone c h)) = None" "initFields (fst (clone c h)) = []"
    "fields' (fst (clone c h)) = fields' c" "ws (fst (clone c h)) = ws c"
    "encs (snd (clone c h)) (enc (fst (clone c h))) = encs h (enc c)"
    by (simp_all add: clone_eq)
  have ret: "d = fst (clone c h) \<and> LevelEnabler d = None \<and> initFields d = [] \<and>
      Enabled d lvl = Inl NilPointerDereference \<and>
      Check d ent ce = Inl NilPointerDereference"
    if w: "With c fs h = Inr (d, h')" for d h'
  proof -
    from w have d: "d = fst (clone c h)"
      by (simp add: With_eq clone_eq split: if_splits)
    with cl have l: "LevelEnabler d = None" and i: "initFields d = []"
      by simp_all
    from l have en: "Enabled d lvl = Inl NilPointerDereference"
      by (simp add: Enabled_def)
    from l have "Check d ent ce = Inl NilPointerDereference"
      by (simp add: Check_def Enabled_def)
    with d l i en show ?thesis by simp
  qed
  then have ret': "\<forall>d h'. With c fs h = Inr (d, h') \<longrightarrow>
      d = fst (clone c h) \<and> LevelEnabler d = None \<and> initFields d = [] \<and>
      Enabled d lvl = Inl NilPointerDereference \<and>
      Check d ent ce = Inl NilPointerDereference"
    by (intro allI impI)
  have ex: "(\<forall>f\<in>set fs. Payload f \<noteq> ObjectMarshalerType None) \<longrightarrow>
      (\<exists>h'. With c fs h = Inr (fst (clone c h), h'))"
    by (simp add: With_eq clone_eq)
  from cl ret' ex show ?thesis
    by (intro conjI)
qed

text \<open>
  A derived core of the sample core, whose filter rejects every level.
\<close>

theorem With_drops_LevelEnabler_witness:
  "Payload (zap_String ''request'' ''42'') \<noteq> ObjectMarshalerType None \<and>
   LevelEnabler sampleCore = Some neverEnabled \<and>
   fst (clone sampleCore emptyStore) =
     \<lparr>LevelEnabler = None, enc = 1, ws = 0, fields' = [zap_String ''service'' ''api''],
        initFields = []\<rparr> \<and>
   With sampleCore [zap_String ''request'' ''42''] emptyStore =
     Inr (\<lparr>LevelEnabler = None, enc = 1, ws = 0, fields' = [zap_String ''service'' ''api''],
            initFields = []\<rparr>,
          emptyStore\<lparr>encs := (encs emptyStore)(1 := [zap_String ''request'' ''42'']),
                     next_enc := 2\<rparr>) \<and>
   Check \<lparr>LevelEnabler = None, enc = 1, ws = 0, fields' = [zap_String ''service'' ''api''],
           initFields = []\<rparr> (sampleEntry InfoLevel) None =
     Inl NilPointerDereference"
proof -
  have m: "Payload (zap_String ''request'' ''42'') \<noteq> ObjectMarshalerType None"
    by (simp add: zap_String_def)
  have l: "LevelEnabler sampleCore = Some neverEnabled"
    by (simp add: sampleCore_def)
  have cl: "fst (clone sampleCore emptyStore) =
     \<lparr>LevelEnabler = None, enc = 1, ws = 0, fields' = [zap_String ''service'' ''api''],
        initFields = []\<rparr>"
    by (simp add: clone_eq sample_defs)
  have w: "With sampleCore [zap_String ''request'' ''42''] emptyStore =
     Inr (\<lparr>LevelEnabler = None, enc = 1, ws = 0, fields' = [zap_String ''service'' ''api''],
            initFields = []\<rparr>,
          emptyStore\<lparr>encs := (encs emptyStore)(1 := [zap_String ''request'' ''42'']),
                     next_enc := 2\<rparr>)"
    by (simp add: With_eq sample_defs zap_String_def)
  note t = With_drops_LevelEnabler [where c = sampleCore and h = emptyStore
      and fs = "[zap_String ''request'' ''42'']" and lvl = InfoLevel
      and ent = "sampleEntry InfoLevel" and ce = None]
  from t w have "Check \<lparr>LevelEnabler = None, enc = 1, ws = 0,
      fields' = [zap_String ''service'' ''api''], initFields = []\<rparr> (sampleEntry InfoLevel) None =
     Inl NilPointerDereference"
    by blast
  with m l cl w show ?thesis
    by (intro conjI)
qed

end
